theory Spec2Isabelle
  imports Main
begin

section \<open>Data model\<close>

text \<open>
  The server keeps four MySQL tables (\<^verbatim>\<open>initDB\<close>) and a directory of uploaded blobs.
  A table is the list of its rows in insertion order. The schema names no collation, so
  how \<^verbatim>\<open>WHERE email = ?\<close> compares two strings is the store's configuration; here a
  column is compared by equality of the stored value. Request fields are the strings and
  numbers the handlers take them for. Time is a number of seconds, the one clock that
  \<^verbatim>\<open>NOW()\<close> and the token library read.
\<close>

type_synonym time = nat

subsection \<open>Library values: bcrypt hashes and JSON web tokens\<close>

text \<open>
  \<^verbatim>\<open>bcrypt.hash(password, 10)\<close> draws a salt and digests the first 72 bytes of the
  password; \<^verbatim>\<open>bcrypt.compare\<close> recomputes the digest from the candidate. The digest is
  kept symbolic: the salt and the bytes that went into it.
\<close>

datatype bcrypt_hash = Bcrypt string string

definition bcrypt_hash_of :: "string \<Rightarrow> string \<Rightarrow> bcrypt_hash" where
  "bcrypt_hash_of password salt = Bcrypt salt (take 72 password)"

definition bcrypt_compare :: "string \<Rightarrow> bcrypt_hash \<Rightarrow> bool" where
  "bcrypt_compare password h = (case h of Bcrypt salt digest \<Rightarrow> take 72 password = digest)"

text \<open>
  A token string is either a JSON web token, kept symbolic as its payload and the key
  that signed it, or any other string. \<^verbatim>\<open>jwt.sign({ userId }, secret, { expiresIn })\<close>
  adds the issue time and the expiry to the payload; \<^verbatim>\<open>jwt.verify\<close> rejects a string
  that is no token, then a signature made with another key, then an expiry that has
  been reached.
\<close>

record jwt_payload =
  claim_userId :: nat
  claim_iat :: time
  claim_exp :: time

datatype token = Jwt jwt_payload string | Opaque string

datatype jwt_error = JsonWebTokenError string | TokenExpiredError string

definition jwt_sign :: "nat \<Rightarrow> string \<Rightarrow> nat \<Rightarrow> time \<Rightarrow> token" where
  "jwt_sign uid secret expiresIn now =
     Jwt \<lparr>claim_userId = uid, claim_iat = now, claim_exp = now + expiresIn\<rparr> secret"

definition jwt_verify :: "token \<Rightarrow> string \<Rightarrow> time \<Rightarrow> jwt_error + jwt_payload" where
  "jwt_verify tok secret now =
     (case tok of
        Opaque str \<Rightarrow> Inl (JsonWebTokenError ''jwt malformed'')
      | Jwt payload key \<Rightarrow>
          if key \<noteq> secret then Inl (JsonWebTokenError ''invalid signature'')
          else if claim_exp payload \<le> now then Inl (TokenExpiredError ''jwt expired'')
          else Inr payload)"

subsection \<open>Tables and the blob directory\<close>

record user_row =
  u_id :: nat
  u_email :: string
  u_password :: bcrypt_hash

record file_row =
  f_id :: nat
  f_filename :: string
  f_path :: string

record token_row =
  t_id :: nat
  t_user_id :: nat
  t_token :: token
  t_expires_at :: time
  t_used :: bool

record whitelist_row =
  w_id :: nat
  w_email :: string
  w_created_at :: time

record state =
  users :: "user_row list"
  users_auto_increment :: nat
  files :: "file_row list"
  files_auto_increment :: nat
  password_reset_tokens :: "token_row list"
  tokens_auto_increment :: nat
  whitelist_emails :: "whitelist_row list"
  uploads :: "string set"

subsection \<open>Store errors and responses\<close>

text \<open>
  A rejected query carries MySQL's error code and message. A query can be rejected by
  the schema (a \<^verbatim>\<open>UNIQUE\<close> column, the foreign key) or for a reason outside the
  program (the connection is lost); the second kind is an input of the model: a handler
  takes a plan that names, by position in the handler, the queries that fail so.
\<close>

datatype db_err = DbErr (code: string) (message: string)

type_synonym faults = "nat \<Rightarrow> db_err option"

definition no_faults :: faults where
  "no_faults = (\<lambda>i. None)"

definition dup_entry :: "string \<Rightarrow> string \<Rightarrow> db_err" where
  "dup_entry v k =
     DbErr ''ER_DUP_ENTRY''
       (''Duplicate entry '' @ [CHR 0x27] @ v @ [CHR 0x27] @ '' for key '' @ [CHR 0x27] @ k @ [CHR 0x27])"

definition query :: "faults \<Rightarrow> nat \<Rightarrow> (state \<Rightarrow> db_err + 'a \<times> state) \<Rightarrow> state \<Rightarrow> db_err + 'a \<times> state" where
  "query fl i q s = (case fl i of Some err \<Rightarrow> Inl err | None \<Rightarrow> q s)"

record details =
  dbRecordDeleted :: bool
  physicalFileDeleted :: bool
  deletedId :: nat

datatype body =
    Error string
  | ErrorNote string string
  | Message string
  | Token token
  | MessageToken string token
  | Uploaded string nat string
  | Deleted string details
  | Valid bool nat

record response =
  status :: nat
  body :: body

definition res :: "nat \<Rightarrow> body \<Rightarrow> response" where
  "res st b = \<lparr>status = st, body = b\<rparr>"

section \<open>Auth middleware\<close>

text \<open>
  The \<^verbatim>\<open>Authorization\<close> header, when present, is given as \<^verbatim>\<open>split(' ')\<close> returns it:
  the list of its parts between single spaces. \<^verbatim>\<open>[1]\<close> is \<^verbatim>\<open>undefined\<close> past the end,
  and \<^verbatim>\<open>!token\<close> holds of \<^verbatim>\<open>undefined\<close> and of the empty string.
\<close>

definition at_index :: "'a list \<Rightarrow> nat \<Rightarrow> 'a option" where
  "at_index xs i = (if i < length xs then Some (xs ! i) else None)"

definition bearer_token :: "token list option \<Rightarrow> token option" where
  "bearer_token authorization =
     (case authorization of None \<Rightarrow> None | Some parts \<Rightarrow> at_index parts 1)"

text \<open>
  \<^verbatim>\<open>authenticate\<close> answers the request itself (\<open>Inl\<close>) or sets \<^verbatim>\<open>req.userId\<close> and
  calls \<^verbatim>\<open>next()\<close> (\<open>Inr\<close>). Like every handler it runs with the connection pool in
  scope; it issues no query.
\<close>

definition authenticate :: "string \<Rightarrow> time \<Rightarrow> token list option \<Rightarrow> state \<Rightarrow> response + nat" where
  "authenticate secret now authorization s =
     (case bearer_token authorization of
        None \<Rightarrow> Inl (res 401 (Error ''Access denied''))
      | Some token \<Rightarrow>
          if token = Opaque [] then Inl (res 401 (Error ''Access denied''))
          else (case jwt_verify token secret now of
                  Inl err \<Rightarrow> Inl (res 400 (Error ''Invalid token''))
                | Inr decoded \<Rightarrow> Inr (claim_userId decoded)))"

section \<open>Routes\<close>

text \<open>
  A handler maps the state to its response and the state it leaves. The \<^verbatim>\<open>catch\<close>
  of a handler answers 500 with the message of the error that reached it.
\<close>

definition internal :: "db_err \<Rightarrow> response" where
  "internal err = res 500 (Error (message err))"

subsection \<open>\<^verbatim>\<open>POST /register\<close>\<close>

definition insert_user :: "string \<Rightarrow> bcrypt_hash \<Rightarrow> state \<Rightarrow> db_err + nat \<times> state" where
  "insert_user email hashed s =
     (if email \<in> u_email ` set (users s) then Inl (dup_entry email ''users.email'')
      else Inr (users_auto_increment s,
             s\<lparr>users := users s @ [\<lparr>u_id = users_auto_increment s, u_email = email, u_password = hashed\<rparr>],
               users_auto_increment := users_auto_increment s + 1\<rparr>))"

definition register :: "faults \<Rightarrow> string \<Rightarrow> string \<Rightarrow> string \<Rightarrow> state \<Rightarrow> response \<times> state" where
  "register fl salt email password s =
     (let hashedPassword = bcrypt_hash_of password salt in
      case query fl 0 (insert_user email hashedPassword) s of
        Inl err \<Rightarrow> (internal err, s)
      | Inr (insertId, s') \<Rightarrow> (res 201 (Message ''User created''), s'))"

subsection \<open>\<^verbatim>\<open>POST /login\<close>\<close>

definition login :: "faults \<Rightarrow> string \<Rightarrow> time \<Rightarrow> string \<Rightarrow> string \<Rightarrow> state \<Rightarrow> response \<times> state" where
  "login fl secret now email password s =
     (case fl 0 of
        Some err \<Rightarrow> (internal err, s)
      | None \<Rightarrow>
          let whitelist = filter (\<lambda>w. w_email w = email) (whitelist_emails s) in
          if length whitelist = 0
          then (res 403 (Error ''Access denied. Your email is not whitelisted.''), s)
          else (case fl 1 of
                  Some err \<Rightarrow> (internal err, s)
                | None \<Rightarrow>
                    (case filter (\<lambda>u. u_email u = email) (users s) of
                       [] \<Rightarrow> (res 401 (Error ''Invalid credentials''), s)
                     | u # rest \<Rightarrow>
                         if \<not> bcrypt_compare password (u_password u)
                         then (res 401 (Error ''Invalid credentials''), s)
                         else (res 200 (Token (jwt_sign (u_id u) secret 3600 now)), s))))"

subsection \<open>\<^verbatim>\<open>POST /upload\<close>\<close>

text \<open>
  \<^verbatim>\<open>upload.single('file')\<close> runs after \<^verbatim>\<open>authenticate\<close>: when the request carries the
  file part it writes the blob under a path of its choosing and sets \<^verbatim>\<open>req.file\<close>.
  The handler then issues its \<^verbatim>\<open>SELECT\<close> and its \<^verbatim>\<open>INSERT\<close> as two queries on the pool,
  outside any transaction, so other connections may commit between them; \<open>interleaved\<close>
  is what they change (the identity when the request runs alone). The \<^verbatim>\<open>INSERT\<close> acts
  on the state they leave, where the \<^verbatim>\<open>UNIQUE\<close> column may reject it.
\<close>

record upload_file =
  originalname :: string
  path :: string

definition multer_single :: "upload_file option \<Rightarrow> state \<Rightarrow> state" where
  "multer_single file s =
     (case file of None \<Rightarrow> s | Some f \<Rightarrow> s\<lparr>uploads := insert (path f) (uploads s)\<rparr>)"

definition insert_file :: "string \<Rightarrow> string \<Rightarrow> state \<Rightarrow> db_err + nat \<times> state" where
  "insert_file filename p s =
     (if filename \<in> f_filename ` set (files s) then Inl (dup_entry filename ''files.filename'')
      else Inr (files_auto_increment s,
             s\<lparr>files := files s @ [\<lparr>f_id = files_auto_increment s, f_filename = filename, f_path = p\<rparr>],
               files_auto_increment := files_auto_increment s + 1\<rparr>))"

definition upload ::
  "faults \<Rightarrow> (state \<Rightarrow> state) \<Rightarrow> string \<Rightarrow> time \<Rightarrow> token list option \<Rightarrow> upload_file option
     \<Rightarrow> state \<Rightarrow> response \<times> state" where
  "upload fl interleaved secret now authorization file s0 =
     (case authenticate secret now authorization s0 of
        Inl denied \<Rightarrow> (denied, s0)
      | Inr userId \<Rightarrow>
          let s = multer_single file s0 in
          (case file of
             None \<Rightarrow> (res 400 (Error ''No file uploaded''), s)
           | Some f \<Rightarrow>
               (case fl 0 of
                  Some err \<Rightarrow> (internal err, s)
                | None \<Rightarrow>
                    let existing = filter (\<lambda>r. f_filename r = originalname f) (files s) in
                    if length existing > 0
                    then (res 400 (Error ''File with this name already exists''), s)
                    else
                      let s1 = interleaved s in
                      (case query fl 1 (insert_file (originalname f) (path f)) s1 of
                         Inl err \<Rightarrow> (internal err, s1)
                       | Inr (insertId, s') \<Rightarrow>
                           (res 200 (Uploaded ''File uploaded successfully'' insertId (path f)), s')))))"

subsection \<open>\<^verbatim>\<open>DELETE /files/:id\<close>\<close>

text \<open>\<^verbatim>\<open>fs.unlink\<close> removes the blob at the path, and throws when there is none.\<close>

definition fs_unlink :: "string \<Rightarrow> state \<Rightarrow> string + state" where
  "fs_unlink p s =
     (if p \<in> uploads s then Inr (s\<lparr>uploads := uploads s - {p}\<rparr>)
      else Inl ''ENOENT: no such file or directory'')"

definition delete_failed :: "db_err \<Rightarrow> response" where
  "delete_failed err =
     res 500 (ErrorNote (message err) ''Database record may or may not have been deleted'')"

definition delete_file :: "faults \<Rightarrow> nat \<Rightarrow> state \<Rightarrow> response \<times> state" where
  "delete_file fl fileId s =
     (case fl 0 of
        Some err \<Rightarrow> (delete_failed err, s)
      | None \<Rightarrow>
          (case filter (\<lambda>r. f_id r = fileId) (files s) of
             [] \<Rightarrow> (res 404 (Error ''File not found in database''), s)
           | f # rest \<Rightarrow>
               let filePath = f_path f;
                   s1 = (case fs_unlink filePath s of Inl warning \<Rightarrow> s | Inr unlinked \<Rightarrow> unlinked)
               in (case fl 1 of
                     Some err \<Rightarrow> (delete_failed err, s1)
                   | None \<Rightarrow>
                       let affectedRows = length (filter (\<lambda>r. f_id r = fileId) (files s1));
                           s2 = s1\<lparr>files := filter (\<lambda>r. f_id r \<noteq> fileId) (files s1)\<rparr>
                       in (res 200 (Deleted ''File deleted completely''
                                      \<lparr>dbRecordDeleted = (affectedRows = 1),
                                       physicalFileDeleted = True,
                                       deletedId = fileId\<rparr>), s2))))"

subsection \<open>\<^verbatim>\<open>DELETE /user\<close>\<close>

text \<open>
  The handler runs on one connection inside a transaction: \<^verbatim>\<open>rollback\<close> discards what
  the connection wrote, \<^verbatim>\<open>commit\<close> keeps it. The \<^verbatim>\<open>SELECT\<close> reads without locking, so
  between it and the first \<^verbatim>\<open>DELETE\<close> other connections may commit; \<open>interleaved\<close>
  is what they change (the identity when the request runs alone), and it is the only way
  for the \<^verbatim>\<open>DELETE\<close> of a user just read to affect no row.
\<close>

definition delete_user ::
  "faults \<Rightarrow> (state \<Rightarrow> state) \<Rightarrow> string \<Rightarrow> time \<Rightarrow> token list option \<Rightarrow> string \<Rightarrow> state
     \<Rightarrow> response \<times> state" where
  "delete_user fl interleaved secret now authorization password s =
     (case authenticate secret now authorization s of
        Inl denied \<Rightarrow> (denied, s)
      | Inr userId \<Rightarrow>
          (case fl 0 of
             Some err \<Rightarrow> (internal err, s)
           | None \<Rightarrow>
               if (case filter (\<lambda>u. u_id u = userId) (users s) of
                     [] \<Rightarrow> True
                   | u # rest \<Rightarrow> \<not> bcrypt_compare password (u_password u))
               then (res 401 (Error ''Invalid password''), s)
               else
                 let begun = interleaved s in
                 (case fl 1 of
                    Some err \<Rightarrow> (internal err, begun)
                  | None \<Rightarrow>
                      let c1 = begun\<lparr>password_reset_tokens :=
                                 filter (\<lambda>t. t_user_id t \<noteq> userId) (password_reset_tokens begun)\<rparr>
                      in (case fl 2 of
                            Some err \<Rightarrow> (internal err, begun)
                          | None \<Rightarrow>
                              let affectedRows = length (filter (\<lambda>u. u_id u = userId) (users c1));
                                  c2 = c1\<lparr>users := filter (\<lambda>u. u_id u \<noteq> userId) (users c1)\<rparr>
                              in if affectedRows = 0
                                 then (res 404 (Error ''User not found''), begun)
                                 else (res 200 (Message ''User account deleted successfully''), c2)))))"

subsection \<open>Password reset\<close>

definition insert_reset_token :: "nat \<Rightarrow> token \<Rightarrow> time \<Rightarrow> state \<Rightarrow> db_err + nat \<times> state" where
  "insert_reset_token userId token expires s =
     (if userId \<notin> u_id ` set (users s)
      then Inl (DbErr ''ER_NO_REFERENCED_ROW_2''
                  ''Cannot add or update a child row: a foreign key constraint fails'')
      else Inr (tokens_auto_increment s,
             s\<lparr>password_reset_tokens := password_reset_tokens s @
                  [\<lparr>t_id = tokens_auto_increment s, t_user_id = userId, t_token = token,
                    t_expires_at = expires, t_used = False\<rparr>],
               tokens_auto_increment := tokens_auto_increment s + 1\<rparr>))"

definition request_password_reset ::
  "faults \<Rightarrow> string \<Rightarrow> time \<Rightarrow> string \<Rightarrow> state \<Rightarrow> response \<times> state" where
  "request_password_reset fl secret now email s =
     (case fl 0 of
        Some err \<Rightarrow> (internal err, s)
      | None \<Rightarrow>
          (case filter (\<lambda>u. u_email u = email) (users s) of
             [] \<Rightarrow> (res 404 (Error ''User not found''), s)
           | u # rest \<Rightarrow>
               let userId = u_id u;
                   token = jwt_sign userId secret 900 now
               in (case query fl 1 (insert_reset_token userId token (now + 900)) s of
                     Inl err \<Rightarrow> (internal err, s)
                   | Inr (insertId, s') \<Rightarrow>
                       (res 200 (MessageToken ''Password reset token generated'' token), s'))))"

text \<open>
  Both remaining handlers read with
  \<^verbatim>\<open>WHERE token = ? AND used = FALSE AND expires_at > NOW()\<close>.
\<close>

definition live_tokens :: "token \<Rightarrow> time \<Rightarrow> state \<Rightarrow> token_row list" where
  "live_tokens token now s =
     filter (\<lambda>t. t_token t = token \<and> \<not> t_used t \<and> now < t_expires_at t) (password_reset_tokens s)"

definition verify_reset_token :: "faults \<Rightarrow> time \<Rightarrow> token \<Rightarrow> state \<Rightarrow> response \<times> state" where
  "verify_reset_token fl now token s =
     (case fl 0 of
        Some err \<Rightarrow> (internal err, s)
      | None \<Rightarrow>
          (case live_tokens token now s of
             [] \<Rightarrow> (res 400 (Error ''Invalid or expired token''), s)
           | t # rest \<Rightarrow> (res 200 (Valid True (t_user_id t)), s)))"

definition reset_password ::
  "faults \<Rightarrow> string \<Rightarrow> time \<Rightarrow> token \<Rightarrow> string \<Rightarrow> state \<Rightarrow> response \<times> state" where
  "reset_password fl salt now token newPassword s =
     (case fl 0 of
        Some err \<Rightarrow> (internal err, s)
      | None \<Rightarrow>
          (case live_tokens token now s of
             [] \<Rightarrow> (res 400 (Error ''Invalid or expired token''), s)
           | t # rest \<Rightarrow>
               let userId = t_user_id t;
                   hashedPassword = bcrypt_hash_of newPassword salt
               in (case fl 1 of
                     Some err \<Rightarrow> (internal err, s)
                   | None \<Rightarrow>
                       let s1 = s\<lparr>users :=
                                  map (\<lambda>u. if u_id u = userId then u\<lparr>u_password := hashedPassword\<rparr> else u)
                                    (users s)\<rparr>
                       in (case fl 2 of
                             Some err \<Rightarrow> (internal err, s1)
                           | None \<Rightarrow>
                               let s2 = s1\<lparr>password_reset_tokens :=
                                          map (\<lambda>r. if t_token r = token then r\<lparr>t_used := True\<rparr> else r)
                                            (password_reset_tokens s1)\<rparr>
                               in (res 200 (Message ''Password updated successfully''), s2)))))"

subsection \<open>\<^verbatim>\<open>DELETE /whitelist/:email\<close>\<close>

definition delete_whitelist ::
  "faults \<Rightarrow> string \<Rightarrow> time \<Rightarrow> token list option \<Rightarrow> string \<Rightarrow> state \<Rightarrow> response \<times> state" where
  "delete_whitelist fl secret now authorization email s =
     (case authenticate secret now authorization s of
        Inl denied \<Rightarrow> (denied, s)
      | Inr userId \<Rightarrow>
          (case fl 0 of
             Some err \<Rightarrow> (internal err, s)
           | None \<Rightarrow>
               let affectedRows = length (filter (\<lambda>w. w_email w = email) (whitelist_emails s));
                   s' = s\<lparr>whitelist_emails := filter (\<lambda>w. w_email w \<noteq> email) (whitelist_emails s)\<rparr>
               in if affectedRows = 0
                  then (res 404 (Error ''Email not found in whitelist''), s')
                  else (res 200 (Message ''Email removed from whitelist''), s')))"

section \<open>Example states\<close>

text \<open>
  Two registered users, of whom only the first is whitelisted; a whitelisted address
  with no account; one file record whose blob is no longer on disk; one live reset token
  of the first user, issued at time 1000.
\<close>

definition demo :: state where
  "demo =
     \<lparr>users = [\<lparr>u_id = 1, u_email = ''a@x.com'', u_password = bcrypt_hash_of ''pw1'' ''s1''\<rparr>,
               \<lparr>u_id = 2, u_email = ''b@x.com'', u_password = bcrypt_hash_of ''pwb'' ''s2''\<rparr>],
      users_auto_increment = 3,
      files = [\<lparr>f_id = 1, f_filename = ''report.pdf'', f_path = ''uploads/3f9c''\<rparr>],
      files_auto_increment = 2,
      password_reset_tokens =
        [\<lparr>t_id = 1, t_user_id = 1, t_token = jwt_sign 1 ''k'' 900 1000, t_expires_at = 1900,
          t_used = False\<rparr>],
      tokens_auto_increment = 2,
      whitelist_emails = [\<lparr>w_id = 1, w_email = ''a@x.com'', w_created_at = 0\<rparr>,
                          \<lparr>w_id = 2, w_email = ''c@x.com'', w_created_at = 5\<rparr>],
      uploads = {}\<rparr>"

text \<open>The header a client sends for a token: \<^verbatim>\<open>'Bearer ' + token\<close>.\<close>

definition bearer :: "token \<Rightarrow> token list option" where
  "bearer tok = Some [Opaque ''Bearer'', tok]"

text \<open>The connection drops before the third query of a handler.\<close>

definition lost :: faults where
  "lost = (\<lambda>i. if i = 2 then Some (DbErr ''ECONNRESET'' ''read ECONNRESET'') else None)"

text \<open>Another connection deletes the account of user 1, tokens first.\<close>

definition removed_elsewhere :: "state \<Rightarrow> state" where
  "removed_elsewhere s =
     s\<lparr>password_reset_tokens := filter (\<lambda>t. t_user_id t \<noteq> 1) (password_reset_tokens s),
       users := filter (\<lambda>u. u_id u \<noteq> 1) (users s)\<rparr>"

text \<open>Another connection uploads a file named \<^verbatim>\<open>notes.txt\<close>.\<close>

definition uploaded_elsewhere :: "state \<Rightarrow> state" where
  "uploaded_elsewhere s =
     s\<lparr>files := files s @
          [\<lparr>f_id = files_auto_increment s, f_filename = ''notes.txt'', f_path = ''uploads/41''\<rparr>],
       files_auto_increment := files_auto_increment s + 1,
       uploads := insert ''uploads/41'' (uploads s)\<rparr>"

section \<open>Auxiliary facts\<close>

lemmas handler_defs = res_def internal_def query_def no_faults_def bcrypt_hash_of_def
  bcrypt_compare_def jwt_sign_def jwt_verify_def bearer_token_def at_index_def authenticate_def
  bearer_def

lemma filter_Nil_find: "filter P xs = [] \<longleftrightarrow> find P xs = None"
  by (induction xs) auto

lemma filter_Cons_find: "filter P xs = x # rest \<Longrightarrow> find P xs = Some x"
  by (induction xs) (auto split: if_splits)

lemma find_Some_filter: "find P xs = Some x \<Longrightarrow> \<exists>rest. filter P xs = x # rest"
  by (induction xs) (auto split: if_splits)

lemma find_Some_holds: "find P xs = Some x \<Longrightarrow> x \<in> set xs \<and> P x"
  by (induction xs) (auto split: if_splits)

lemma multer_single_files: "files (multer_single file s) = files s"
  by (simp add: multer_single_def split: option.splits)

lemma insert_file_distinct:
  assumes "insert_file name p s = Inr (i, s')" and "distinct (map f_filename (files s))"
  shows "distinct (map f_filename (files s'))"
  using assms by (auto simp: insert_file_def split: if_splits)

lemma no_faults_None: "no_faults i = None"
  by (simp add: no_faults_def)

lemma demo_authenticated: "authenticate ''k'' 50 (bearer (jwt_sign 1 ''k'' 3600 0)) demo = Inr 1"
  by (simp add: handler_defs)

section \<open>Claims\<close>

subsection \<open>File deletion\<close>

text \<open>
  C1. When the record of a file exists but its blob cannot be unlinked,
  \<^verbatim>\<open>DELETE /files/:id\<close> still removes the record, and the claim has the response report
  the physical deletion as failed. Evaluated on the record of \<open>demo\<close>, whose blob is
  missing: \<^verbatim>\<open>fs.unlink\<close> throws, the record is removed and reported so, and the response
  carries \<^verbatim>\<open>physicalFileDeleted: true\<close>, the constant the handler writes whatever
  \<^verbatim>\<open>fs.unlink\<close> did.
\<close>

theorem delete_file_reports_unlinked_blob:
  "fs_unlink ''uploads/3f9c'' demo = Inl ''ENOENT: no such file or directory'' \<and>
   fst (delete_file no_faults 1 demo) =
     \<lparr>status = 200,
      body = Deleted ''File deleted completely''
               \<lparr>dbRecordDeleted = True, physicalFileDeleted = True, deletedId = 1\<rparr>\<rparr> \<and>
   files (snd (delete_file no_faults 1 demo)) = []"
  by (simp add: delete_file_def fs_unlink_def demo_def handler_defs)

subsection \<open>Password reset\<close>

text \<open>
  C2. The claim has \<^verbatim>\<open>POST /reset-password\<close> apply the password update and the marking
  of the token as one all-or-nothing unit. The handler issues the two \<^verbatim>\<open>UPDATE\<close>s as
  separate queries on the pool, outside any transaction. Evaluated with the live token of
  \<open>demo\<close> when the connection drops before the second \<^verbatim>\<open>UPDATE\<close>: the answer is 500,
  the new hash is stored, and the token is still unused.
\<close>

theorem reset_password_half_applied:
  "reset_password lost ''s9'' 1500 (jwt_sign 1 ''k'' 900 1000) ''pw2'' demo =
     (\<lparr>status = 500, body = Error ''read ECONNRESET''\<rparr>,
      demo\<lparr>users := [\<lparr>u_id = 1, u_email = ''a@x.com'', u_password = bcrypt_hash_of ''pw2'' ''s9''\<rparr>,
                       \<lparr>u_id = 2, u_email = ''b@x.com'', u_password = bcrypt_hash_of ''pwb'' ''s2''\<rparr>]\<rparr>) \<and>
   map t_used (password_reset_tokens
     (snd (reset_password lost ''s9'' 1500 (jwt_sign 1 ''k'' 900 1000) ''pw2'' demo))) = [False]"
  by (simp add: reset_password_def live_tokens_def lost_def demo_def handler_defs)

subsection \<open>Registration\<close>

text \<open>
  C3. The claim has \<^verbatim>\<open>POST /register\<close> fail with Conflict when the email is taken,
  creating no user and leaving the stored hash alone. Evaluated on \<open>demo\<close> with the email
  of user 1: the \<^verbatim>\<open>UNIQUE\<close> column rejects the \<^verbatim>\<open>INSERT\<close> and the state is unchanged,
  but the handler's only \<^verbatim>\<open>catch\<close> answers 500 with the store's message, as it does
  for any failed query; it has no branch for \<^verbatim>\<open>ER_DUP_ENTRY\<close>.
\<close>

theorem register_duplicate_email_is_500:
  "insert_user ''a@x.com'' (bcrypt_hash_of ''pw2'' ''s9'') demo =
     Inl (DbErr ''ER_DUP_ENTRY'' (message (dup_entry ''a@x.com'' ''users.email''))) \<and>
   fst (register no_faults ''s9'' ''a@x.com'' ''pw2'' demo) =
     \<lparr>status = 500, body = Error (message (dup_entry ''a@x.com'' ''users.email''))\<rparr> \<and>
   users (snd (register no_faults ''s9'' ''a@x.com'' ''pw2'' demo)) = users demo"
  by (simp add: register_def insert_user_def dup_entry_def demo_def handler_defs)

subsection \<open>Session verification\<close>

text \<open>
  C4, as amended. \<^verbatim>\<open>authenticate\<close> has two failure responses. It answers 401
  \<^verbatim>\<open>Access denied\<close> exactly when no token is presented (no header, no second part, or an
  empty one). Every presented token that fails verification is answered 400
  \<^verbatim>\<open>Invalid token\<close>, whether it is malformed, signed with another key, or expired: these
  three are not told apart.
\<close>

theorem authenticate_failure_kinds:
  "(authenticate secret now authorization s = Inl r \<longrightarrow>
      (r = res 401 (Error ''Access denied'') \<and>
         (bearer_token authorization = None \<or> bearer_token authorization = Some (Opaque [])))
      \<or> (r = res 400 (Error ''Invalid token'') \<and>
           (\<exists>tok. bearer_token authorization = Some tok \<and> tok \<noteq> Opaque [] \<and>
                  isl (jwt_verify tok secret now)))) \<and>
   (bearer_token authorization = None \<or> bearer_token authorization = Some (Opaque []) \<longrightarrow>
      authenticate secret now authorization s = Inl (res 401 (Error ''Access denied''))) \<and>
   (bearer_token authorization = Some tok \<and> tok \<noteq> Opaque [] \<and>
      ((\<exists>str. tok = Opaque str) \<or> (\<exists>p key. tok = Jwt p key \<and> key \<noteq> secret) \<or>
       (\<exists>p. tok = Jwt p secret \<and> claim_exp p \<le> now)) \<longrightarrow>
      authenticate secret now authorization s = Inl (res 400 (Error ''Invalid token'')))"
  by (auto simp: authenticate_def jwt_verify_def split: option.splits if_splits sum.splits token.splits)

theorem authenticate_failure_kinds_witness:
  "authenticate ''k'' 1000 (bearer (jwt_sign 1 ''k'' 900 100)) demo = Inl (res 400 (Error ''Invalid token'')) \<and>
   authenticate ''k'' 50 (bearer (jwt_sign 1 ''j'' 900 100)) demo = Inl (res 400 (Error ''Invalid token'')) \<and>
   authenticate ''k'' 50 (bearer (Opaque ''abc'')) demo = Inl (res 400 (Error ''Invalid token'')) \<and>
   authenticate ''k'' 50 (Some [Opaque ''Bearer'']) demo = Inl (res 401 (Error ''Access denied'')) \<and>
   isl (jwt_verify (jwt_sign 1 ''k'' 900 100) ''k'' 1000)"
proof -
  have expired: "bearer_token (bearer (jwt_sign 1 ''k'' 900 100)) = Some (jwt_sign 1 ''k'' 900 100) \<and>
      jwt_sign 1 ''k'' 900 100 \<noteq> Opaque [] \<and>
      ((\<exists>str. jwt_sign 1 ''k'' 900 100 = Opaque str) \<or>
       (\<exists>p key. jwt_sign 1 ''k'' 900 100 = Jwt p key \<and> key \<noteq> ''k'') \<or>
       (\<exists>p. jwt_sign 1 ''k'' 900 100 = Jwt p ''k'' \<and> claim_exp p \<le> 1000))"
    by (simp add: handler_defs)
  have forged: "bearer_token (bearer (jwt_sign 1 ''j'' 900 100)) = Some (jwt_sign 1 ''j'' 900 100) \<and>
      jwt_sign 1 ''j'' 900 100 \<noteq> Opaque [] \<and>
      ((\<exists>str. jwt_sign 1 ''j'' 900 100 = Opaque str) \<or>
       (\<exists>p key. jwt_sign 1 ''j'' 900 100 = Jwt p key \<and> key \<noteq> ''k'') \<or>
       (\<exists>p. jwt_sign 1 ''j'' 900 100 = Jwt p ''k'' \<and> claim_exp p \<le> 50))"
    by (simp add: handler_defs)
  have malformed: "bearer_token (bearer (Opaque ''abc'')) = Some (Opaque ''abc'') \<and>
      Opaque ''abc'' \<noteq> Opaque [] \<and>
      ((\<exists>str. Opaque ''abc'' = Opaque str) \<or>
       (\<exists>p key. Opaque ''abc'' = Jwt p key \<and> key \<noteq> ''k'') \<or>
       (\<exists>p. Opaque ''abc'' = Jwt p ''k'' \<and> claim_exp p \<le> 50))"
    by (simp add: handler_defs)
  have absent: "bearer_token (Some [Opaque ''Bearer'']) = None \<or>
      bearer_token (Some [Opaque ''Bearer'']) = Some (Opaque [])"
    by (simp add: handler_defs)
  note kinds = authenticate_failure_kinds
  from kinds [of "''k''" 1000 "bearer (jwt_sign 1 ''k'' 900 100)" demo _ "jwt_sign 1 ''k'' 900 100"] expired
  have a: "authenticate ''k'' 1000 (bearer (jwt_sign 1 ''k'' 900 100)) demo = Inl (res 400 (Error ''Invalid token''))"
    by blast
  from kinds [of "''k''" 50 "bearer (jwt_sign 1 ''j'' 900 100)" demo _ "jwt_sign 1 ''j'' 900 100"] forged
  have b: "authenticate ''k'' 50 (bearer (jwt_sign 1 ''j'' 900 100)) demo = Inl (res 400 (Error ''Invalid token''))"
    by blast
  from kinds [of "''k''" 50 "bearer (Opaque ''abc'')" demo _ "Opaque ''abc''"] malformed
  have c: "authenticate ''k'' 50 (bearer (Opaque ''abc'')) demo = Inl (res 400 (Error ''Invalid token''))"
    by blast
  from kinds [of "''k''" 50 "Some [Opaque ''Bearer'']" demo] absent
  have d: "authenticate ''k'' 50 (Some [Opaque ''Bearer'']) demo = Inl (res 401 (Error ''Access denied''))"
    by blast
  from kinds [of "''k''" 1000 "bearer (jwt_sign 1 ''k'' 900 100)" demo "res 400 (Error ''Invalid token'')"] a
  have e: "isl (jwt_verify (jwt_sign 1 ''k'' 900 100) ''k'' 1000)"
    by (auto simp: handler_defs)
  from a b c d e show ?thesis by blast
qed

text \<open>
  C4 as stated has every failure of verification answered with one error kind, with no
  code or status that tells the cases apart. A request without a header and a request
  with a malformed token get different statuses and messages.
\<close>

theorem authenticate_absent_vs_invalid_counterexample:
  "authenticate ''k'' 0 None demo = Inl \<lparr>status = 401, body = Error ''Access denied''\<rparr> \<and>
   authenticate ''k'' 0 (bearer (Opaque ''abc'')) demo =
     Inl \<lparr>status = 400, body = Error ''Invalid token''\<rparr> \<and>
   authenticate ''k'' 0 None demo \<noteq> authenticate ''k'' 0 (bearer (Opaque ''abc'')) demo"
  by (simp add: handler_defs)

subsection \<open>Upload\<close>

text \<open>
  C5, as amended. When the existence query of an authenticated upload is answered and
  finds a file record with the same filename, the upload is rejected with status 400 and
  the message \<^verbatim>\<open>File with this name already exists\<close>, and the files table is left as it
  was. And whatever the request, whichever queries fail and whatever other connections
  commit between the two queries (filenames among their records being distinct too, as
  the \<^verbatim>\<open>UNIQUE\<close> column has it), an upload never makes two records share a filename.
\<close>

theorem upload_duplicate_filename:
  "(authenticate secret now authorization s = Inr uid \<and> fl 0 = None \<and>
      originalname f \<in> f_filename ` set (files s) \<longrightarrow>
        fst (upload fl interleaved secret now authorization (Some f) s) =
          res 400 (Error ''File with this name already exists'') \<and>
        files (snd (upload fl interleaved secret now authorization (Some f) s)) = files s) \<and>
   (distinct (map f_filename (files s)) \<and>
    distinct (map f_filename (files (interleaved (multer_single req_file s)))) \<longrightarrow>
      distinct (map f_filename
        (files (snd (upload fl interleaved secret now authorization req_file s)))))"
proof (intro conjI impI)
  assume a: "authenticate secret now authorization s = Inr uid \<and> fl 0 = None \<and>
      originalname f \<in> f_filename ` set (files s)"
  then have ex: "filter (\<lambda>r. f_filename r = originalname f) (files (multer_single (Some f) s)) \<noteq> []"
    by (auto simp: multer_single_files filter_empty_conv)
  with a show "fst (upload fl interleaved secret now authorization (Some f) s) =
          res 400 (Error ''File with this name already exists'')"
    by (simp add: upload_def Let_def)
  from a ex show "files (snd (upload fl interleaved secret now authorization (Some f) s)) = files s"
    by (simp add: upload_def Let_def multer_single_files)
next
  assume d: "distinct (map f_filename (files s)) \<and>
    distinct (map f_filename (files (interleaved (multer_single req_file s))))"
  then have d': "distinct (map f_filename (files (multer_single req_file s)))"
    by (simp add: multer_single_files)
  show "distinct (map f_filename
        (files (snd (upload fl interleaved secret now authorization req_file s))))"
    using d d' insert_file_distinct [where s = "interleaved (multer_single req_file s)"]
    by (auto simp: upload_def Let_def query_def split: sum.splits option.splits prod.splits)
qed

theorem upload_duplicate_filename_witness:
  "fst (upload no_faults id ''k'' 50 (bearer (jwt_sign 1 ''k'' 3600 0))
          (Some \<lparr>originalname = ''report.pdf'', path = ''uploads/77''\<rparr>) demo) =
     res 400 (Error ''File with this name already exists'') \<and>
   files (snd (upload no_faults id ''k'' 50 (bearer (jwt_sign 1 ''k'' 3600 0))
          (Some \<lparr>originalname = ''report.pdf'', path = ''uploads/77''\<rparr>) demo)) = files demo \<and>
   distinct (map f_filename (files (snd (upload no_faults id ''k'' 50 (bearer (jwt_sign 1 ''k'' 3600 0))
          (Some \<lparr>originalname = ''notes.txt'', path = ''uploads/78''\<rparr>) demo)))) \<and>
   map f_path (files (snd (upload no_faults id ''k'' 50 (bearer (jwt_sign 1 ''k'' 3600 0))
          (Some \<lparr>originalname = ''notes.txt'', path = ''uploads/78''\<rparr>) demo))) =
     [''uploads/3f9c'', ''uploads/78''] \<and>
   fst (upload no_faults uploaded_elsewhere ''k'' 50 (bearer (jwt_sign 1 ''k'' 3600 0))
          (Some \<lparr>originalname = ''notes.txt'', path = ''uploads/78''\<rparr>) demo) =
     res 500 (Error (message (dup_entry ''notes.txt'' ''files.filename''))) \<and>
   distinct (map f_filename (files (snd (upload no_faults uploaded_elsewhere ''k'' 50
          (bearer (jwt_sign 1 ''k'' 3600 0))
          (Some \<lparr>originalname = ''notes.txt'', path = ''uploads/78''\<rparr>) demo)))) \<and>
   map f_path (files (snd (upload no_faults uploaded_elsewhere ''k'' 50
          (bearer (jwt_sign 1 ''k'' 3600 0))
          (Some \<lparr>originalname = ''notes.txt'', path = ''uploads/78''\<rparr>) demo))) =
     [''uploads/3f9c'', ''uploads/41'']"
proof -
  note dup = upload_duplicate_filename
         [where secret = "''k''" and now = 50 and authorization = "bearer (jwt_sign 1 ''k'' 3600 0)"
            and s = demo and uid = 1 and fl = no_faults
            and f = "\<lparr>originalname = ''report.pdf'', path = ''uploads/77''\<rparr>"
            and req_file = "Some \<lparr>originalname = ''notes.txt'', path = ''uploads/78''\<rparr>"]
  have present: "originalname \<lparr>originalname = ''report.pdf'', path = ''uploads/77''\<rparr>
      \<in> f_filename ` set (files demo)"
    by (simp add: demo_def)
  with demo_authenticated no_faults_None
  have h: "authenticate ''k'' 50 (bearer (jwt_sign 1 ''k'' 3600 0)) demo = Inr 1 \<and> no_faults 0 = None \<and>
      originalname \<lparr>originalname = ''report.pdf'', path = ''uploads/77''\<rparr> \<in> f_filename ` set (files demo)"
    by blast
  have d: "distinct (map f_filename (files demo))"
    by (simp add: demo_def)
  have alone: "distinct (map f_filename (files (id (multer_single
      (Some \<lparr>originalname = ''notes.txt'', path = ''uploads/78''\<rparr>) demo))))"
    by (simp add: multer_single_def demo_def)
  have raced: "distinct (map f_filename (files (uploaded_elsewhere (multer_single
      (Some \<lparr>originalname = ''notes.txt'', path = ''uploads/78''\<rparr>) demo))))"
    by (simp add: multer_single_def uploaded_elsewhere_def demo_def)
  have stored: "map f_path (files (snd (upload no_faults id ''k'' 50 (bearer (jwt_sign 1 ''k'' 3600 0))
          (Some \<lparr>originalname = ''notes.txt'', path = ''uploads/78''\<rparr>) demo))) =
     [''uploads/3f9c'', ''uploads/78'']"
    by (simp add: upload_def insert_file_def multer_single_def demo_def handler_defs)
  have rejected: "fst (upload no_faults uploaded_elsewhere ''k'' 50 (bearer (jwt_sign 1 ''k'' 3600 0))
          (Some \<lparr>originalname = ''notes.txt'', path = ''uploads/78''\<rparr>) demo) =
     res 500 (Error (message (dup_entry ''notes.txt'' ''files.filename''))) \<and>
   map f_path (files (snd (upload no_faults uploaded_elsewhere ''k'' 50
          (bearer (jwt_sign 1 ''k'' 3600 0))
          (Some \<lparr>originalname = ''notes.txt'', path = ''uploads/78''\<rparr>) demo))) =
     [''uploads/3f9c'', ''uploads/41'']"
    by (simp add: upload_def insert_file_def multer_single_def uploaded_elsewhere_def demo_def
          handler_defs)
  from dup [where interleaved = id] h d alone
  have 1: "fst (upload no_faults id ''k'' 50 (bearer (jwt_sign 1 ''k'' 3600 0))
          (Some \<lparr>originalname = ''report.pdf'', path = ''uploads/77''\<rparr>) demo) =
     res 400 (Error ''File with this name already exists'') \<and>
   files (snd (upload no_faults id ''k'' 50 (bearer (jwt_sign 1 ''k'' 3600 0))
          (Some \<lparr>originalname = ''report.pdf'', path = ''uploads/77''\<rparr>) demo)) = files demo \<and>
   distinct (map f_filename (files (snd (upload no_faults id ''k'' 50 (bearer (jwt_sign 1 ''k'' 3600 0))
          (Some \<lparr>originalname = ''notes.txt'', path = ''uploads/78''\<rparr>) demo))))"
    by blast
  from dup [where interleaved = uploaded_elsewhere] d raced
  have 2: "distinct (map f_filename (files (snd (upload no_faults uploaded_elsewhere ''k'' 50
          (bearer (jwt_sign 1 ''k'' 3600 0))
          (Some \<lparr>originalname = ''notes.txt'', path = ''uploads/78''\<rparr>) demo))))"
    by blast
  from 1 2 stored rejected show ?thesis by blast
qed

text \<open>
  C5 as stated has the rejected upload fail with Conflict, which this server sends as
  status 409 (\<^verbatim>\<open>POST /whitelist\<close> on a duplicate entry). The upload of a filename that is
  already recorded is answered with status 400, the status the same handler gives a
  request without a file.
\<close>

theorem upload_duplicate_status_counterexample:
  "fst (upload no_faults id ''k'' 50 (bearer (jwt_sign 1 ''k'' 3600 0))
          (Some \<lparr>originalname = ''report.pdf'', path = ''uploads/77''\<rparr>) demo) =
     \<lparr>status = 400, body = Error ''File with this name already exists''\<rparr> \<and>
   status (fst (upload no_faults id ''k'' 50 (bearer (jwt_sign 1 ''k'' 3600 0))
          (Some \<lparr>originalname = ''report.pdf'', path = ''uploads/77''\<rparr>) demo)) \<noteq> 409 \<and>
   fst (upload no_faults id ''k'' 50 (bearer (jwt_sign 1 ''k'' 3600 0)) None demo) =
     \<lparr>status = 400, body = Error ''No file uploaded''\<rparr>"
  by (simp add: upload_def multer_single_def demo_def handler_defs)

subsection \<open>Login\<close>

text \<open>
  C6. \<^verbatim>\<open>POST /login\<close>, when its two queries are answered, never changes the state and
  checks the whitelist first: an email that is not whitelisted gets 403 with the
  whitelist message whatever the users table holds and whatever the password; a
  whitelisted email gets the one answer 401 \<^verbatim>\<open>Invalid credentials\<close> when no user has
  it or the password does not match, and otherwise a token for that user's id that
  expires after one hour.
\<close>

theorem login_whitelist_first:
  assumes "fl 0 = None" and "fl 1 = None"
  shows "snd (login fl secret now email password s) = s \<and>
    (email \<notin> w_email ` set (whitelist_emails s) \<longrightarrow>
       fst (login fl secret now email password s) =
         res 403 (Error ''Access denied. Your email is not whitelisted.'')) \<and>
    (email \<in> w_email ` set (whitelist_emails s) \<longrightarrow>
       (case find (\<lambda>u. u_email u = email) (users s) of
          None \<Rightarrow> fst (login fl secret now email password s) = res 401 (Error ''Invalid credentials'')
        | Some u \<Rightarrow>
            fst (login fl secret now email password s) =
              (if bcrypt_compare password (u_password u)
               then res 200 (Token (jwt_sign (u_id u) secret 3600 now))
               else res 401 (Error ''Invalid credentials''))))"
proof -
  have wl: "filter (\<lambda>w. w_email w = email) (whitelist_emails s) = [] \<longleftrightarrow>
            email \<notin> w_email ` set (whitelist_emails s)"
    by (auto simp: filter_empty_conv)
  show ?thesis
  proof (cases "find (\<lambda>u. u_email u = email) (users s)")
    case None
    then have "filter (\<lambda>u. u_email u = email) (users s) = []" by (simp add: filter_Nil_find)
    with assms None wl show ?thesis by (simp add: login_def Let_def)
  next
    case (Some u)
    then obtain rest where "filter (\<lambda>u. u_email u = email) (users s) = u # rest"
      using find_Some_filter by fastforce
    with assms Some wl show ?thesis by (simp add: login_def Let_def)
  qed
qed

theorem login_whitelist_first_witness:
  "fst (login no_faults ''k'' 50 ''b@x.com'' ''pwb'' demo) =
     res 403 (Error ''Access denied. Your email is not whitelisted.'') \<and>
   bcrypt_compare ''pwb'' (bcrypt_hash_of ''pwb'' ''s2'') \<and>
   fst (login no_faults ''k'' 50 ''c@x.com'' ''pw1'' demo) = res 401 (Error ''Invalid credentials'') \<and>
   fst (login no_faults ''k'' 50 ''a@x.com'' ''pwb'' demo) = res 401 (Error ''Invalid credentials'') \<and>
   fst (login no_faults ''k'' 50 ''a@x.com'' ''pw1'' demo) = res 200 (Token (jwt_sign 1 ''k'' 3600 50)) \<and>
   snd (login no_faults ''k'' 50 ''a@x.com'' ''pw1'' demo) = demo"
proof -
  note first = login_whitelist_first [where fl = no_faults and secret = "''k''" and now = 50
      and s = demo, OF no_faults_None no_faults_None]
  have b: "''b@x.com'' \<notin> w_email ` set (whitelist_emails demo)"
    by (simp add: demo_def)
  have c: "''c@x.com'' \<in> w_email ` set (whitelist_emails demo) \<and>
           find (\<lambda>u. u_email u = ''c@x.com'') (users demo) = None"
    by (simp add: demo_def)
  have a: "''a@x.com'' \<in> w_email ` set (whitelist_emails demo) \<and>
           find (\<lambda>u. u_email u = ''a@x.com'') (users demo) =
             Some \<lparr>u_id = 1, u_email = ''a@x.com'', u_password = bcrypt_hash_of ''pw1'' ''s1''\<rparr>"
    by (simp add: demo_def)
  have pw: "bcrypt_compare ''pwb'' (bcrypt_hash_of ''pwb'' ''s2'') \<and>
            bcrypt_compare ''pw1'' (bcrypt_hash_of ''pw1'' ''s1'') \<and>
            \<not> bcrypt_compare ''pwb'' (bcrypt_hash_of ''pw1'' ''s1'')"
    by (simp add: bcrypt_compare_def bcrypt_hash_of_def)
  from first [where email = "''b@x.com''" and password = "''pwb''"] b
  have 1: "fst (login no_faults ''k'' 50 ''b@x.com'' ''pwb'' demo) =
     res 403 (Error ''Access denied. Your email is not whitelisted.'')"
    by blast
  from first [where email = "''c@x.com''" and password = "''pw1''"] c
  have 2: "fst (login no_faults ''k'' 50 ''c@x.com'' ''pw1'' demo) = res 401 (Error ''Invalid credentials'')"
    by simp
  from first [where email = "''a@x.com''" and password = "''pwb''"] a pw
  have 3: "fst (login no_faults ''k'' 50 ''a@x.com'' ''pwb'' demo) = res 401 (Error ''Invalid credentials'')"
    by simp
  from first [where email = "''a@x.com''" and password = "''pw1''"] a pw
  have 4: "fst (login no_faults ''k'' 50 ''a@x.com'' ''pw1'' demo) = res 200 (Token (jwt_sign 1 ''k'' 3600 50)) \<and>
   snd (login no_faults ''k'' 50 ''a@x.com'' ''pw1'' demo) = demo"
    by simp
  from 1 2 3 4 pw show ?thesis by blast
qed

subsection \<open>Account deletion\<close>

text \<open>
  C7. \<^verbatim>\<open>DELETE /user\<close> for the authenticated user is one unit. When the first query is
  answered and the password does not match the stored hash (or no row is read), the
  answer is 401 and the state is unchanged. When all queries are answered and the
  password matches, the user's reset tokens and then the user row are deleted and both
  deletions are kept; unless the \<^verbatim>\<open>DELETE\<close> of the user row affects no row, in which
  case the answer is 404 and the state is the one the unit began on, with every reset
  token still there. In every run that does not answer 200, whatever fails, nothing the
  unit wrote is kept.
\<close>

theorem delete_user_atomic:
  assumes auth: "authenticate secret now authorization s = Inr uid"
  shows "let r = delete_user fl interleaved secret now authorization password s;
             ok = (case find (\<lambda>u. u_id u = uid) (users s) of
                     None \<Rightarrow> False
                   | Some u \<Rightarrow> bcrypt_compare password (u_password u));
             begun = interleaved s;
             removed = begun\<lparr>password_reset_tokens :=
                               filter (\<lambda>t. t_user_id t \<noteq> uid) (password_reset_tokens begun),
                             users := filter (\<lambda>u. u_id u \<noteq> uid) (users begun)\<rparr>
         in (fl 0 = None \<and> \<not> ok \<longrightarrow> r = (res 401 (Error ''Invalid password''), s)) \<and>
            (fl 0 = None \<and> fl 1 = None \<and> fl 2 = None \<and> ok \<and> uid \<in> u_id ` set (users begun) \<longrightarrow>
               r = (res 200 (Message ''User account deleted successfully''), removed)) \<and>
            (fl 0 = None \<and> fl 1 = None \<and> fl 2 = None \<and> ok \<and> uid \<notin> u_id ` set (users begun) \<longrightarrow>
               r = (res 404 (Error ''User not found''), begun)) \<and>
            (status (fst r) \<noteq> 200 \<longrightarrow> snd r = s \<or> snd r = begun)"
proof -
  have rows: "filter (\<lambda>u. u_id u = uid) xs = [] \<longleftrightarrow> uid \<notin> u_id ` set xs" for xs :: "user_row list"
    by (auto simp: filter_empty_conv)
  show ?thesis
  proof (cases "filter (\<lambda>u. u_id u = uid) (users s)")
    case Nil
    then have "find (\<lambda>u. u_id u = uid) (users s) = None" by (simp add: filter_Nil_find)
    with auth Nil show ?thesis
      by (simp add: delete_user_def Let_def res_def internal_def split: option.splits)
  next
    case (Cons u rest)
    then have "find (\<lambda>u. u_id u = uid) (users s) = Some u" by (rule filter_Cons_find)
    with auth Cons show ?thesis
      by (simp add: delete_user_def Let_def res_def internal_def rows split: option.splits)
  qed
qed

theorem delete_user_atomic_witness:
  "delete_user no_faults id ''k'' 50 (bearer (jwt_sign 1 ''k'' 3600 0)) ''bad'' demo =
     (res 401 (Error ''Invalid password''), demo) \<and>
   delete_user no_faults id ''k'' 50 (bearer (jwt_sign 1 ''k'' 3600 0)) ''pw1'' demo =
     (res 200 (Message ''User account deleted successfully''),
      demo\<lparr>password_reset_tokens := [],
           users := [\<lparr>u_id = 2, u_email = ''b@x.com'', u_password = bcrypt_hash_of ''pwb'' ''s2''\<rparr>]\<rparr>) \<and>
   delete_user no_faults removed_elsewhere ''k'' 50 (bearer (jwt_sign 1 ''k'' 3600 0)) ''pw1'' demo =
     (res 404 (Error ''User not found''), removed_elsewhere demo) \<and>
   status (fst (delete_user lost id ''k'' 50 (bearer (jwt_sign 1 ''k'' 3600 0)) ''pw1'' demo)) = 500 \<and>
   snd (delete_user lost id ''k'' 50 (bearer (jwt_sign 1 ''k'' 3600 0)) ''pw1'' demo) = demo"
proof -
  note unit = delete_user_atomic [OF demo_authenticated, unfolded Let_def]
  have bad: "\<not> (case find (\<lambda>u. u_id u = 1) (users demo) of
                  None \<Rightarrow> False | Some u \<Rightarrow> bcrypt_compare ''bad'' (u_password u))"
    by (simp add: demo_def bcrypt_compare_def bcrypt_hash_of_def)
  have ok: "case find (\<lambda>u. u_id u = 1) (users demo) of
              None \<Rightarrow> False | Some u \<Rightarrow> bcrypt_compare ''pw1'' (u_password u)"
    by (simp add: demo_def bcrypt_compare_def bcrypt_hash_of_def)
  have here: "1 \<in> u_id ` set (users (id demo))"
    by (simp add: demo_def)
  have gone: "1 \<notin> u_id ` set (users (removed_elsewhere demo))"
    by (simp add: demo_def removed_elsewhere_def)
  have removed: "(id demo)\<lparr>password_reset_tokens :=
                     filter (\<lambda>t. t_user_id t \<noteq> 1) (password_reset_tokens (id demo)),
                   users := filter (\<lambda>u. u_id u \<noteq> 1) (users (id demo))\<rparr> =
     demo\<lparr>password_reset_tokens := [],
          users := [\<lparr>u_id = 2, u_email = ''b@x.com'', u_password = bcrypt_hash_of ''pwb'' ''s2''\<rparr>]\<rparr>"
    by (simp add: demo_def)
  have failed: "status (fst (delete_user lost id ''k'' 50 (bearer (jwt_sign 1 ''k'' 3600 0)) ''pw1'' demo)) = 500"
    by (simp add: delete_user_def lost_def demo_def handler_defs)
  from unit [where fl = no_faults and interleaved = id and password = "''bad''"] bad no_faults_None
  have 1: "delete_user no_faults id ''k'' 50 (bearer (jwt_sign 1 ''k'' 3600 0)) ''bad'' demo =
     (res 401 (Error ''Invalid password''), demo)"
    by blast
  from unit [where fl = no_faults and interleaved = id and password = "''pw1''"] ok here no_faults_None
  have "delete_user no_faults id ''k'' 50 (bearer (jwt_sign 1 ''k'' 3600 0)) ''pw1'' demo =
     (res 200 (Message ''User account deleted successfully''),
      (id demo)\<lparr>password_reset_tokens :=
                     filter (\<lambda>t. t_user_id t \<noteq> 1) (password_reset_tokens (id demo)),
                   users := filter (\<lambda>u. u_id u \<noteq> 1) (users (id demo))\<rparr>)"
    by blast
  with removed
  have 2: "delete_user no_faults id ''k'' 50 (bearer (jwt_sign 1 ''k'' 3600 0)) ''pw1'' demo =
     (res 200 (Message ''User account deleted successfully''),
      demo\<lparr>password_reset_tokens := [],
           users := [\<lparr>u_id = 2, u_email = ''b@x.com'', u_password = bcrypt_hash_of ''pwb'' ''s2''\<rparr>]\<rparr>)"
    by simp
  from unit [where fl = no_faults and interleaved = removed_elsewhere and password = "''pw1''"]
    ok gone no_faults_None
  have 3: "delete_user no_faults removed_elsewhere ''k'' 50 (bearer (jwt_sign 1 ''k'' 3600 0)) ''pw1'' demo =
     (res 404 (Error ''User not found''), removed_elsewhere demo)"
    by blast
  from unit [where fl = lost and interleaved = id and password = "''pw1''"] failed
  have 4: "snd (delete_user lost id ''k'' 50 (bearer (jwt_sign 1 ''k'' 3600 0)) ''pw1'' demo) = demo"
    by simp
  from 1 2 3 4 failed show ?thesis by blast
qed

subsection \<open>Reset-token validation\<close>

text \<open>
  C8. \<^verbatim>\<open>POST /verify-reset-token\<close>, when its query is answered, leaves the state alone
  and succeeds exactly when some row has the presented token, is unused and expires
  after now; it then returns the user id of the first such row. In every other case
  (no row, used, expired) it gives the one answer 400 \<^verbatim>\<open>Invalid or expired token\<close>; in
  particular when every row with that token has expired, whatever their used flags.
\<close>

theorem verify_reset_token_single_error:
  assumes "fl 0 = None"
  shows "snd (verify_reset_token fl now token s) = s \<and>
    ((\<exists>uid. fst (verify_reset_token fl now token s) = res 200 (Valid True uid)) \<longleftrightarrow>
     (\<exists>r \<in> set (password_reset_tokens s). t_token r = token \<and> \<not> t_used r \<and> now < t_expires_at r)) \<and>
    (case find (\<lambda>r. t_token r = token \<and> \<not> t_used r \<and> now < t_expires_at r) (password_reset_tokens s) of
       Some r \<Rightarrow> fst (verify_reset_token fl now token s) = res 200 (Valid True (t_user_id r))
     | None \<Rightarrow> fst (verify_reset_token fl now token s) = res 400 (Error ''Invalid or expired token'')) \<and>
    ((\<forall>r \<in> set (password_reset_tokens s). t_token r = token \<longrightarrow> t_expires_at r \<le> now) \<longrightarrow>
       fst (verify_reset_token fl now token s) = res 400 (Error ''Invalid or expired token''))"
proof -
  let ?P = "\<lambda>r. t_token r = token \<and> \<not> t_used r \<and> now < t_expires_at r"
  show ?thesis
  proof (cases "find ?P (password_reset_tokens s)")
    case None
    then have none: "filter ?P (password_reset_tokens s) = []" by (simp add: filter_Nil_find)
    then have "\<not> (\<exists>r \<in> set (password_reset_tokens s). ?P r)"
      by (simp add: filter_empty_conv)
    with assms None none show ?thesis
      by (simp add: verify_reset_token_def live_tokens_def res_def)
  next
    case (Some r)
    then obtain rest where f: "filter ?P (password_reset_tokens s) = r # rest"
      using find_Some_filter by fastforce
    from Some have live: "r \<in> set (password_reset_tokens s) \<and> ?P r"
      by (rule find_Some_holds)
    then have ex: "\<exists>r \<in> set (password_reset_tokens s). ?P r" by blast
    from live have "\<not> (\<forall>r \<in> set (password_reset_tokens s). t_token r = token \<longrightarrow> t_expires_at r \<le> now)"
      by auto
    with assms Some f ex show ?thesis
      by (auto simp: verify_reset_token_def live_tokens_def)
  qed
qed

theorem verify_reset_token_single_error_witness:
  "fst (verify_reset_token no_faults 1500 (jwt_sign 1 ''k'' 900 1000) demo) = res 200 (Valid True 1) \<and>
   fst (verify_reset_token no_faults 1900 (jwt_sign 1 ''k'' 900 1000) demo) =
     res 400 (Error ''Invalid or expired token'') \<and>
   fst (verify_reset_token no_faults 1500 (Opaque ''abc'') demo) =
     res 400 (Error ''Invalid or expired token'') \<and>
   snd (verify_reset_token no_faults 1500 (jwt_sign 1 ''k'' 900 1000) demo) = demo"
proof -
  note single = verify_reset_token_single_error [where fl = no_faults and s = demo, OF no_faults_None]
  have live: "find (\<lambda>r. t_token r = jwt_sign 1 ''k'' 900 1000 \<and> \<not> t_used r \<and> 1500 < t_expires_at r)
                (password_reset_tokens demo) =
              Some \<lparr>t_id = 1, t_user_id = 1, t_token = jwt_sign 1 ''k'' 900 1000, t_expires_at = 1900,
                    t_used = False\<rparr>"
    by (simp add: demo_def)
  have expired: "\<forall>r \<in> set (password_reset_tokens demo).
                   t_token r = jwt_sign 1 ''k'' 900 1000 \<longrightarrow> t_expires_at r \<le> 1900"
    by (simp add: demo_def)
  have unknown: "find (\<lambda>r. t_token r = Opaque ''abc'' \<and> \<not> t_used r \<and> 1500 < t_expires_at r)
                (password_reset_tokens demo) = None"
    by (simp add: demo_def jwt_sign_def)
  from single [where now = 1500 and token = "jwt_sign 1 ''k'' 900 1000"] live
  have 1: "fst (verify_reset_token no_faults 1500 (jwt_sign 1 ''k'' 900 1000) demo) = res 200 (Valid True 1) \<and>
           snd (verify_reset_token no_faults 1500 (jwt_sign 1 ''k'' 900 1000) demo) = demo"
    by simp
  from single [where now = 1900 and token = "jwt_sign 1 ''k'' 900 1000"] expired
  have 2: "fst (verify_reset_token no_faults 1900 (jwt_sign 1 ''k'' 900 1000) demo) =
     res 400 (Error ''Invalid or expired token'')"
    by blast
  from single [where now = 1500 and token = "Opaque ''abc''"] unknown
  have 3: "fst (verify_reset_token no_faults 1500 (Opaque ''abc'') demo) =
     res 400 (Error ''Invalid or expired token'')"
    by simp
  from 1 2 3 show ?thesis by blast
qed

subsection \<open>Reset tokens as bearer credentials\<close>

text \<open>
  C9. A token returned by \<^verbatim>\<open>POST /request-password-reset\<close> at time \<open>t\<close> is signed with
  the session secret over the payload shape of a session token, for the user who has the
  email. Presented as the second part of the \<^verbatim>\<open>Authorization\<close> header, at any time
  before \<open>t + 900\<close> and on any state of the store, it passes \<^verbatim>\<open>authenticate\<close> with
  \<^verbatim>\<open>req.userId\<close> that user's id; from \<open>t + 900\<close> on it is answered 400.
\<close>

theorem reset_token_passes_authenticate:
  assumes "request_password_reset fl secret t email s = (res 200 (MessageToken m tok), s')"
  shows "\<exists>u. find (\<lambda>u. u_email u = email) (users s) = Some u \<and>
             tok = jwt_sign (u_id u) secret 900 t \<and>
             authenticate secret now (Some [scheme, tok]) st =
               (if now < t + 900 then Inr (u_id u) else Inl (res 400 (Error ''Invalid token'')))"
proof (cases "filter (\<lambda>u. u_email u = email) (users s)")
  case Nil
  with assms show ?thesis
    by (simp add: request_password_reset_def res_def internal_def split: option.splits)
next
  case (Cons u rest)
  then have "find (\<lambda>u. u_email u = email) (users s) = Some u" by (rule filter_Cons_find)
  moreover from assms Cons have "tok = jwt_sign (u_id u) secret 900 t"
    by (simp add: request_password_reset_def res_def internal_def Let_def
             split: option.splits sum.splits prod.splits)
  ultimately show ?thesis
    by (simp add: authenticate_def bearer_token_def at_index_def jwt_sign_def jwt_verify_def)
qed

theorem reset_token_passes_authenticate_witness:
  "fst (request_password_reset no_faults ''k'' 2000 ''a@x.com'' demo) =
     res 200 (MessageToken ''Password reset token generated'' (jwt_sign 1 ''k'' 900 2000)) \<and>
   authenticate ''k'' 2899 (bearer (jwt_sign 1 ''k'' 900 2000)) demo = Inr 1 \<and>
   authenticate ''k'' 2900 (bearer (jwt_sign 1 ''k'' 900 2000)) demo =
     Inl (res 400 (Error ''Invalid token''))"
proof -
  have issued: "request_password_reset no_faults ''k'' 2000 ''a@x.com'' demo =
     (res 200 (MessageToken ''Password reset token generated'' (jwt_sign 1 ''k'' 900 2000)),
      snd (request_password_reset no_faults ''k'' 2000 ''a@x.com'' demo))"
    by (simp add: request_password_reset_def insert_reset_token_def demo_def handler_defs Let_def)
  have user: "find (\<lambda>u. u_email u = ''a@x.com'') (users demo) =
     Some \<lparr>u_id = 1, u_email = ''a@x.com'', u_password = bcrypt_hash_of ''pw1'' ''s1''\<rparr>"
    by (simp add: demo_def)
  note passes = reset_token_passes_authenticate [OF issued, where scheme = "Opaque ''Bearer''"
      and st = demo, folded bearer_def]
  from passes [where now = 2899] user
  have 1: "authenticate ''k'' 2899 (bearer (jwt_sign 1 ''k'' 900 2000)) demo = Inr 1"
    by auto
  from passes [where now = 2900] user
  have 2: "authenticate ''k'' 2900 (bearer (jwt_sign 1 ''k'' 900 2000)) demo =
     Inl (res 400 (Error ''Invalid token''))"
    by auto
  from issued
  have 0: "fst (request_password_reset no_faults ''k'' 2000 ''a@x.com'' demo) =
     res 200 (MessageToken ''Password reset token generated'' (jwt_sign 1 ''k'' 900 2000))"
    by (metis fst_conv)
  from 0 1 2 show ?thesis by blast
qed

subsection \<open>Session tokens and the store\<close>

text \<open>
  C10. \<^verbatim>\<open>authenticate\<close> gives the same result on any two states of the store. So a
  token issued by a successful \<^verbatim>\<open>POST /login\<close> at time \<open>t\<close> passes it, with the id of
  the user who logged in, at every time before \<open>t + 3600\<close> and on every state: also on
  the state left by \<^verbatim>\<open>DELETE /whitelist/:email\<close> for that email and on the state left by
  \<^verbatim>\<open>DELETE /user\<close>. From \<open>t + 3600\<close> on it is answered 400.
\<close>

theorem session_token_ignores_store:
  assumes "login fl secret t email password s = (res 200 (Token tok), s1)"
  shows "\<exists>u. find (\<lambda>u. u_email u = email) (users s) = Some u \<and>
     (\<forall>st. authenticate secret now (Some [scheme, tok]) st =
             (if now < t + 3600 then Inr (u_id u) else Inl (res 400 (Error ''Invalid token'')))) \<and>
     authenticate secret now (Some [scheme, tok])
         (snd (delete_whitelist fl1 secret now1 a1 email s1)) =
       authenticate secret now (Some [scheme, tok]) s1 \<and>
     authenticate secret now (Some [scheme, tok])
         (snd (delete_user fl2 interleaved secret now2 a2 password s1)) =
       authenticate secret now (Some [scheme, tok]) s1 \<and>
     authenticate secret now a st1 = authenticate secret now a st2"
proof (cases "filter (\<lambda>u. u_email u = email) (users s)")
  case Nil
  with assms show ?thesis
    by (simp add: login_def res_def internal_def Let_def split: option.splits if_splits)
next
  case (Cons u rest)
  then have "find (\<lambda>u. u_email u = email) (users s) = Some u" by (rule filter_Cons_find)
  moreover from assms Cons have "tok = jwt_sign (u_id u) secret 3600 t"
    by (simp add: login_def res_def internal_def Let_def split: option.splits if_splits)
  ultimately show ?thesis
    by (simp add: authenticate_def bearer_token_def at_index_def jwt_sign_def jwt_verify_def)
qed

theorem session_token_ignores_store_witness:
  "login no_faults ''k'' 50 ''a@x.com'' ''pw1'' demo = (res 200 (Token (jwt_sign 1 ''k'' 3600 50)), demo) \<and>
   fst (delete_whitelist no_faults ''k'' 60 (bearer (jwt_sign 1 ''k'' 3600 50)) ''a@x.com'' demo) =
     res 200 (Message ''Email removed from whitelist'') \<and>
   authenticate ''k'' 3649 (bearer (jwt_sign 1 ''k'' 3600 50))
     (snd (delete_whitelist no_faults ''k'' 60 (bearer (jwt_sign 1 ''k'' 3600 50)) ''a@x.com'' demo)) = Inr 1 \<and>
   fst (delete_user no_faults id ''k'' 60 (bearer (jwt_sign 1 ''k'' 3600 50)) ''pw1'' demo) =
     res 200 (Message ''User account deleted successfully'') \<and>
   authenticate ''k'' 3649 (bearer (jwt_sign 1 ''k'' 3600 50))
     (snd (delete_user no_faults id ''k'' 60 (bearer (jwt_sign 1 ''k'' 3600 50)) ''pw1'' demo)) = Inr 1 \<and>
   authenticate ''k'' 3650 (bearer (jwt_sign 1 ''k'' 3600 50)) demo = Inl (res 400 (Error ''Invalid token''))"
proof -
  have issued: "login no_faults ''k'' 50 ''a@x.com'' ''pw1'' demo =
      (res 200 (Token (jwt_sign 1 ''k'' 3600 50)), demo)"
    by (simp add: login_def demo_def handler_defs)
  have user: "find (\<lambda>u. u_email u = ''a@x.com'') (users demo) =
     Some \<lparr>u_id = 1, u_email = ''a@x.com'', u_password = bcrypt_hash_of ''pw1'' ''s1''\<rparr>"
    by (simp add: demo_def)
  have unlisted: "fst (delete_whitelist no_faults ''k'' 60 (bearer (jwt_sign 1 ''k'' 3600 50)) ''a@x.com'' demo) =
     res 200 (Message ''Email removed from whitelist'')"
    by (simp add: delete_whitelist_def demo_def handler_defs)
  have deleted: "fst (delete_user no_faults id ''k'' 60 (bearer (jwt_sign 1 ''k'' 3600 50)) ''pw1'' demo) =
     res 200 (Message ''User account deleted successfully'')"
    by (simp add: delete_user_def demo_def handler_defs)
  note ignores = session_token_ignores_store [OF issued, where scheme = "Opaque ''Bearer''",
      folded bearer_def]
  from ignores [where now = 3649] user
  have 1: "\<forall>st. authenticate ''k'' 3649 (bearer (jwt_sign 1 ''k'' 3600 50)) st = Inr 1"
    by auto
  from ignores [where now = 3650] user
  have 2: "authenticate ''k'' 3650 (bearer (jwt_sign 1 ''k'' 3600 50)) demo =
     Inl (res 400 (Error ''Invalid token''))"
    by auto
  from issued unlisted deleted 1 2 show ?thesis by simp
qed

end
